theory Spec2Isabelle
  imports Main "HOL-Library.Sublist" "HOL-Library.Multiset"
begin

section \<open>Strings of the chat client\<close>

text \<open>
  A JavaScript string is a sequence of UTF-16 code units. The model writes it as a
  \<^typ>\<open>string\<close>, one \<^typ>\<open>char\<close> for each code unit, which covers the texts whose
  code units lie below 256 (ISO-8859-1, ASCII included). On that range
  \<^verbatim>\<open>toLowerCase\<close> maps A..Z, and the accented capitals 192..222 other than the
  multiplication sign 215, to the code unit 32 above, and leaves every other unit alone.
  The emoji of the three fixed reply texts lie outside the range; they stand there as
  their UTF-8 bytes, and no function of the model looks inside a reply text.
\<close>

definition lowerChar :: "char \<Rightarrow> char" where
  "lowerChar c =
     (let n = (of_char c :: nat)
      in if (65 \<le> n \<and> n \<le> 90) \<or> (192 \<le> n \<and> n \<le> 222 \<and> n \<noteq> 215)
         then char_of (n + 32) else c)"

definition toLowerCase :: "string \<Rightarrow> string" where
  "toLowerCase s = map lowerChar s"

text \<open>\<^verbatim>\<open>s.startsWith(p)\<close> and \<^verbatim>\<open>s.includes(p)\<close>, searching from position 0.\<close>

definition startsWith :: "string \<Rightarrow> string \<Rightarrow> bool" where
  "startsWith s p = (take (length p) s = p)"

fun includes_str :: "string \<Rightarrow> string \<Rightarrow> bool" where
  "includes_str [] p = (p = [])"
| "includes_str (c # cs) p = (startsWith (c # cs) p \<or> includes_str cs p)"

text \<open>
  \<^verbatim>\<open>trim\<close> drops white space and line terminators at both ends; below 256 these are
  the code units 9 to 13, 32 and 160.
\<close>

definition isWhiteSpace :: "char \<Rightarrow> bool" where
  "isWhiteSpace c = (let n = (of_char c :: nat) in (9 \<le> n \<and> n \<le> 13) \<or> n = 32 \<or> n = 160)"

definition trim :: "string \<Rightarrow> string" where
  "trim s = rev (dropWhile isWhiteSpace (rev (dropWhile isWhiteSpace s)))"

text \<open>Truthiness of a value of type \<^verbatim>\<open>string | null | undefined\<close> and of an optional flag.\<close>

fun truthy_str :: "string option \<Rightarrow> bool" where
  "truthy_str None = False"
| "truthy_str (Some s) = (s \<noteq> [])"

fun truthy_flag :: "bool option \<Rightarrow> bool" where
  "truthy_flag None = False"
| "truthy_flag (Some b) = b"

text \<open>\<^verbatim>\<open>a || b\<close> on strings: the empty string is falsy.\<close>

definition or_str :: "string \<Rightarrow> string \<Rightarrow> string" where
  "or_str a b = (if a = [] then b else a)"

section \<open>Data model (types.ts)\<close>

datatype MessageRole = USER | MODEL

datatype MessageType = TEXT | IMAGE

record ChatMessage =
  msg_id :: string
  role :: MessageRole
  msg_text :: string
  imageUrl :: "string option"
  msg_type :: MessageType
  timestamp :: int
  isGenerating :: "bool option"
  originalPrompt :: "string option"

record ChatSession =
  session_id :: string
  title :: string
  messages :: "ChatMessage list"
  createdAt :: int
  updatedAt :: int
  isPinned :: "bool option"

section \<open>The gateway (services/gemini.ts)\<close>

text \<open>
  The remote service is outside the program. A call either rejects with an error or
  resolves with a response; the model takes that outcome as a value of a sum type,
  \<^term>\<open>Inl\<close> for a thrown error. The response of the image endpoint has an optional
  list \<^verbatim>\<open>generatedImages\<close>; each entry has an optional \<^verbatim>\<open>image\<close> with optional
  \<^verbatim>\<open>imageBytes\<close>. The client \<^verbatim>\<open>ai\<close> is a record of the two remote calls, each a
  function of what its request is built from: the prompt for the image endpoint; the
  history, the new message and the attached image for the text endpoint.
\<close>

datatype js_error = ApiError string | TypeError

type_synonym GeneratedImage = "string option option"

type_synonym GenerateImagesResponse = "GeneratedImage list option"

record GoogleGenAI =
  generateImages :: "string \<Rightarrow> js_error + GenerateImagesResponse"
  generateContent :: "ChatMessage list \<Rightarrow> string \<Rightarrow> string option \<Rightarrow> js_error + string option"

text \<open>A template literal prints an undefined value as the word undefined.\<close>

fun template_str :: "string option \<Rightarrow> string" where
  "template_str None = ''undefined''"
| "template_str (Some s) = s"

text \<open>
  \<^verbatim>\<open>generateImageWithGemini\<close>: the first generated image as a JPEG data URI, null when
  the response carries no image. The catch block logs the error and throws it again.
  Reading \<^verbatim>\<open>imageBytes\<close> of a missing \<^verbatim>\<open>image\<close> is a TypeError, raised inside the
  same try block.
\<close>

definition generateImageWithGemini :: "GoogleGenAI \<Rightarrow> string \<Rightarrow> js_error + string option" where
  "generateImageWithGemini ai prompt =
     (case generateImages ai prompt of
        Inl e \<Rightarrow> Inl e
      | Inr None \<Rightarrow> Inr None
      | Inr (Some []) \<Rightarrow> Inr None
      | Inr (Some (g # gs)) \<Rightarrow>
          (case g of
             None \<Rightarrow> Inl TypeError
           | Some base64ImageBytes \<Rightarrow>
               Inr (Some (''data:image/jpeg;base64,'' @ template_str base64ImageBytes))))"

text \<open>
  \<^verbatim>\<open>sendMessageToGemini\<close>: the whole body, the construction of the request included, is
  inside one try block whose catch returns a fixed text, so the function never throws.
  \<^verbatim>\<open>response.text\<close> may be undefined or empty.
\<close>

definition chatFallback :: string where
  "chatFallback = ''I'm having trouble speaking right now.''"

definition chatFailure :: string where
  "chatFailure = ''Sorry, I encountered an error connecting to my neural link. ''
     @ [CHR 0xF0, CHR 0x9F, CHR 0xA7, CHR 0xA0, CHR 0xE2, CHR 0x9D, CHR 0x8C]"

definition sendMessageToGemini ::
  "GoogleGenAI \<Rightarrow> ChatMessage list \<Rightarrow> string \<Rightarrow> string option \<Rightarrow> string" where
  "sendMessageToGemini ai history currentMessage currentImage =
     (case generateContent ai history currentMessage currentImage of
        Inl e \<Rightarrow> chatFailure
      | Inr None \<Rightarrow> chatFallback
      | Inr (Some t) \<Rightarrow> or_str t chatFallback)"

text \<open>\<^verbatim>\<open>isImageGenerationRequest\<close>: the heuristic on the lower-cased text.\<close>

definition isImageGenerationRequest :: "string \<Rightarrow> bool" where
  "isImageGenerationRequest txt =
     (let lower = toLowerCase txt
      in startsWith lower ''generate image'' \<or>
         startsWith lower ''create image'' \<or>
         startsWith lower ''draw'' \<or>
         startsWith lower ''imagine'' \<or>
         includes_str lower ''make an image of'')"

section \<open>Application state and its handlers (App.tsx)\<close>

text \<open>
  \<^verbatim>\<open>generateId\<close> draws from one of two random sources: \<^verbatim>\<open>crypto.randomUUID()\<close>
  where it exists, else \<^verbatim>\<open>Math.random().toString(36).substring(2, 15)\<close>. One draw is
  a \<open>rand\<close>: the UUID (\<^term>\<open>None\<close> where the function is missing) and the base-36
  text of the random number.
\<close>

record rand =
  randomUUID :: "string option"
  mathRandom36 :: string

definition generateId :: "rand \<Rightarrow> string" where
  "generateId r =
     (case randomUUID r of
        Some u \<Rightarrow> u
      | None \<Rightarrow> drop 2 (take 15 (mathRandom36 r)))"

text \<open>The React state the chat handlers read and set.\<close>

record app_state =
  sessions :: "ChatSession list"
  currentSessionId :: "string option"
  input :: string
  selectedImage :: "string option"
  isTyping :: bool
  showImageGenGuide :: bool
  isSidebarOpen :: bool
  isLoggedIn :: bool
  showLoginModal :: bool

text \<open>
  What a handler takes from outside the program: the random draws of its
  \<^verbatim>\<open>generateId\<close> calls, the readings of \<^verbatim>\<open>Date.now()\<close>, the window width, and
  the client of the remote service.
\<close>

record env =
  rand_session :: rand
  rand_user :: rand
  rand_reply :: rand
  now_created :: int
  now_updated :: int
  now_user :: int
  now_user_touch :: int
  now_reply :: int
  now_reply_touch :: int
  innerWidth :: int
  ai :: GoogleGenAI

text \<open>The session literal the handlers build, up to its title.\<close>

definition newSessionTitled :: "env \<Rightarrow> string \<Rightarrow> ChatSession" where
  "newSessionTitled e ttl =
     \<lparr> session_id = generateId (rand_session e), title = ttl, messages = [],
       createdAt = now_created e, updatedAt = now_updated e, isPinned = None \<rparr>"

definition handleNewChat :: "env \<Rightarrow> app_state \<Rightarrow> app_state" where
  "handleNewChat e st =
     (let newSession = newSessionTitled e ''New Conversation'';
          st1 = st\<lparr> sessions := newSession # sessions st,
                    currentSessionId := Some (session_id newSession),
                    showImageGenGuide := False \<rparr>
      in if innerWidth e < 768 then st1\<lparr> isSidebarOpen := False \<rparr> else st1)"

definition handleDeleteSession :: "string \<Rightarrow> app_state \<Rightarrow> app_state" where
  "handleDeleteSession i st =
     (let st1 = st\<lparr> sessions := filter (\<lambda>s. session_id s \<noteq> i) (sessions st) \<rparr>
      in if currentSessionId st = Some i then st1\<lparr> currentSessionId := None \<rparr> else st1)"

definition handlePinSession :: "string \<Rightarrow> app_state \<Rightarrow> app_state" where
  "handlePinSession i st =
     st\<lparr> sessions :=
          map (\<lambda>s. if session_id s = i
                    then s\<lparr> isPinned := Some (\<not> truthy_flag (isPinned s)) \<rparr> else s)
            (sessions st) \<rparr>"

definition handleSessionSelect :: "string \<Rightarrow> app_state \<Rightarrow> app_state" where
  "handleSessionSelect i st =
     (if isLoggedIn st
      then st\<lparr> currentSessionId := Some i, showImageGenGuide := False,
               isSidebarOpen := False \<rparr>
      else st\<lparr> showLoginModal := True \<rparr>)"

definition onClearAll :: "app_state \<Rightarrow> app_state" where
  "onClearAll st = st\<lparr> sessions := [], currentSessionId := None \<rparr>"

subsection \<open>The send flow\<close>

definition textToSend :: "string option \<Rightarrow> app_state \<Rightarrow> string" where
  "textToSend overrideText st =
     (case overrideText of
        None \<Rightarrow> input st
      | Some t \<Rightarrow> (if t = [] then input st else t))"

definition userMsg :: "env \<Rightarrow> string \<Rightarrow> app_state \<Rightarrow> ChatMessage" where
  "userMsg e txt st =
     \<lparr> msg_id = generateId (rand_user e), role = USER, msg_text = txt,
       imageUrl = (if truthy_str (selectedImage st) then selectedImage st else None),
       msg_type = TEXT, timestamp = now_user e,
       isGenerating = None, originalPrompt = None \<rparr>"

definition imageReply :: "string \<Rightarrow> string" where
  "imageReply txt = ''Here is the image you asked for! ''
     @ [CHR 0xF0, CHR 0x9F, CHR 0x8E, CHR 0xA8] @ '' '' @ [CHR 0x0A, CHR 0x0A]
     @ ''Prompt: '' @ [CHR 0x22] @ txt @ [CHR 0x22]"

definition imageFailure :: string where
  "imageFailure = ''I tried to generate that image, but my neural canvas is blurry right now. Please try again.''"

definition neuralLinkDisrupted :: string where
  "neuralLinkDisrupted = ''My neural link was disrupted. Please try again. ''
     @ [CHR 0xE2, CHR 0x9A, CHR 0xA0, CHR 0xEF, CHR 0xB8, CHR 0x8F]"

text \<open>
  The try block up to the reply message: \<^term>\<open>Inl\<close> when the gateway call throws.
  The history comes from the sessions of the render the handler was created in.
\<close>

definition tryBlock ::
  "env \<Rightarrow> string \<Rightarrow> bool \<Rightarrow> ChatMessage \<Rightarrow> string option \<Rightarrow> ChatSession list
     \<Rightarrow> js_error + ChatMessage" where
  "tryBlock e txt isImageGenMode um targetSessionId ss =
     (if isImageGenMode \<or> isImageGenerationRequest txt
      then (case generateImageWithGemini (ai e) txt of
              Inl err \<Rightarrow> Inl err
            | Inr generatedImageBase64 \<Rightarrow>
                (if truthy_str generatedImageBase64
                 then Inr \<lparr> msg_id = generateId (rand_reply e), role = MODEL,
                            msg_text = imageReply txt, imageUrl = generatedImageBase64,
                            msg_type = IMAGE, timestamp = now_reply e,
                            isGenerating = None, originalPrompt = Some txt \<rparr>
                 else Inr \<lparr> msg_id = generateId (rand_reply e), role = MODEL,
                            msg_text = imageFailure, imageUrl = None,
                            msg_type = TEXT, timestamp = now_reply e,
                            isGenerating = None, originalPrompt = None \<rparr>))
      else (let history =
                  (case find (\<lambda>s. Some (session_id s) = targetSessionId) ss of
                     Some currentSessionData \<Rightarrow> messages currentSessionData
                   | None \<Rightarrow> [])
            in Inr \<lparr> msg_id = generateId (rand_reply e), role = MODEL,
                       msg_text = sendMessageToGemini (ai e) history txt (imageUrl um),
                       imageUrl = None, msg_type = TEXT, timestamp = now_reply e,
                       isGenerating = None, originalPrompt = None \<rparr>))"

definition errorMsg :: "env \<Rightarrow> ChatMessage" where
  "errorMsg e =
     \<lparr> msg_id = generateId (rand_reply e), role = MODEL, msg_text = neuralLinkDisrupted,
       imageUrl = None, msg_type = TEXT, timestamp = now_reply e,
       isGenerating = None, originalPrompt = None \<rparr>"

text \<open>
  The handler after its guard. The block that creates a session when
  \<^verbatim>\<open>targetSessionId\<close> is falsy is kept as the source has it, although the guard has
  returned already in that case.
\<close>

definition sendBody :: "env \<Rightarrow> string \<Rightarrow> bool \<Rightarrow> app_state \<Rightarrow> app_state" where
  "sendBody e txt isImageGenMode st =
     (let newSession = newSessionTitled e (take 20 txt @ ''...'');
          created = \<not> truthy_str (currentSessionId st);
          targetSessionId =
            (if created then Some (session_id newSession) else currentSessionId st);
          st1 = (if created
                 then st\<lparr> sessions := newSession # sessions st,
                          currentSessionId := Some (session_id newSession) \<rparr>
                 else st);
          um = userMsg e txt st;
          st2 = st1\<lparr> sessions :=
                   map (\<lambda>s. if Some (session_id s) = targetSessionId
                             then s\<lparr> title := (if messages s = []
                                               then or_str (take 30 txt) ''Image Analysis''
                                               else title s),
                                     messages := messages s @ [um],
                                     updatedAt := now_user_touch e \<rparr>
                             else s)
                     (sessions st1),
                   input := [], selectedImage := None, isTyping := True,
                   showImageGenGuide := False \<rparr>;
          st3 = (case tryBlock e txt isImageGenMode um targetSessionId (sessions st) of
                   Inr botMsg \<Rightarrow>
                     st2\<lparr> sessions :=
                          map (\<lambda>s. if Some (session_id s) = targetSessionId
                                    then s\<lparr> messages := messages s @ [botMsg],
                                            updatedAt := now_reply_touch e \<rparr>
                                    else s)
                            (sessions st2) \<rparr>
                 | Inl err \<Rightarrow>
                     st2\<lparr> sessions :=
                          map (\<lambda>s. if Some (session_id s) = targetSessionId
                                    then s\<lparr> messages := messages s @ [errorMsg e] \<rparr>
                                    else s)
                            (sessions st2) \<rparr>)
      in st3\<lparr> isTyping := False \<rparr>)"

definition handleSend :: "env \<Rightarrow> string option \<Rightarrow> bool \<Rightarrow> app_state \<Rightarrow> app_state" where
  "handleSend e overrideText isImageGenMode st =
     (let txt = textToSend overrideText st
      in if (trim txt = [] \<and> \<not> truthy_str (selectedImage st))
            \<or> \<not> truthy_str (currentSessionId st)
         then (if \<not> truthy_str (currentSessionId st)
               then (let newSession = newSessionTitled e (or_str (take 30 txt) ''New Chat'')
                     in st\<lparr> sessions := newSession # sessions st,
                             currentSessionId := Some (session_id newSession) \<rparr>)
               else st)
         else sendBody e txt isImageGenMode st)"

text \<open>The operations of the session store and the send flow, as one step function.\<close>

datatype operation =
    NewChat env
  | DeleteSession string
  | PinSession string
  | SessionSelect string
  | ClearAll
  | Send env "string option" bool

fun step :: "operation \<Rightarrow> app_state \<Rightarrow> app_state" where
  "step (NewChat e) st = handleNewChat e st"
| "step (DeleteSession i) st = handleDeleteSession i st"
| "step (PinSession i) st = handlePinSession i st"
| "step (SessionSelect i) st = handleSessionSelect i st"
| "step ClearAll st = onClearAll st"
| "step (Send e overrideText isImageGenMode) st = handleSend e overrideText isImageGenMode st"

section \<open>The sidebar's list (components/Sidebar.tsx)\<close>

definition compareSessions :: "ChatSession \<Rightarrow> ChatSession \<Rightarrow> int" where
  "compareSessions a b =
     (if truthy_flag (isPinned a) \<and> \<not> truthy_flag (isPinned b) then - 1
      else if \<not> truthy_flag (isPinned a) \<and> truthy_flag (isPinned b) then 1
      else updatedAt b - updatedAt a)"

text \<open>
  \<^verbatim>\<open>Array.prototype.sort\<close> with a comparator is a stable sort (ECMAScript 2019): an
  element moves behind another only when the comparator puts it strictly after.
  Insertion from the right gives that order.
\<close>

fun insert_by :: "('a \<Rightarrow> 'a \<Rightarrow> int) \<Rightarrow> 'a \<Rightarrow> 'a list \<Rightarrow> 'a list" where
  "insert_by cmp x [] = [x]"
| "insert_by cmp x (y # ys) = (if cmp x y \<le> 0 then x # y # ys else y # insert_by cmp x ys)"

definition array_sort :: "('a \<Rightarrow> 'a \<Rightarrow> int) \<Rightarrow> 'a list \<Rightarrow> 'a list" where
  "array_sort cmp xs = foldr (insert_by cmp) xs []"

definition matchesSearch :: "string \<Rightarrow> ChatSession \<Rightarrow> bool" where
  "matchesSearch searchTerm s = includes_str (toLowerCase (title s)) (toLowerCase searchTerm)"

definition filteredSessions :: "ChatSession list \<Rightarrow> string \<Rightarrow> ChatSession list" where
  "filteredSessions ss searchTerm = array_sort compareSessions (filter (matchesSearch searchTerm) ss)"

section \<open>Concrete inputs\<close>

text \<open>A service that answers, and one that rejects every call.\<close>

definition ai_ok :: GoogleGenAI where
  "ai_ok = \<lparr> generateImages = (\<lambda>p. Inr (Some [Some (Some ''QUJD'')])),
             generateContent = (\<lambda>h m i. Inr (Some ''Namaste!'')) \<rparr>"

definition ai_down :: GoogleGenAI where
  "ai_down = \<lparr> generateImages = (\<lambda>p. Inl (ApiError ''quota exceeded'')),
               generateContent = (\<lambda>h m i. Inl (ApiError ''quota exceeded'')) \<rparr>"

text \<open>
  A service whose first generated entry has no image (a filtered result) while the
  second has one, and a service whose first entry has an image without bytes.
\<close>

definition ai_first_filtered :: GoogleGenAI where
  "ai_first_filtered = \<lparr> generateImages = (\<lambda>p. Inr (Some [None, Some (Some ''WFla'')])),
                         generateContent = (\<lambda>h m i. Inr (Some ''Namaste!'')) \<rparr>"

definition ai_first_no_bytes :: GoogleGenAI where
  "ai_first_no_bytes = \<lparr> generateImages = (\<lambda>p. Inr (Some [Some None, Some (Some ''WFla'')])),
                         generateContent = (\<lambda>h m i. Inr (Some ''Namaste!'')) \<rparr>"

definition session_a :: ChatSession where
  "session_a = \<lparr> session_id = ''3b241101-e2bb-4255-8caf-4136c566a962'', title = ''Trip to Goa'',
       messages = [], createdAt = 1700000000000, updatedAt = 1700000005000, isPinned = None \<rparr>"

definition session_b :: ChatSession where
  "session_b = \<lparr> session_id = ''9f0c2d4e-77aa-4c1b-9b1e-0d5c8a6f2e11'', title = ''Draw ideas'',
       messages = [], createdAt = 1700000001000, updatedAt = 1700000009000, isPinned = Some True \<rparr>"

definition session_c :: ChatSession where
  "session_c = \<lparr> session_id = ''c4d2a1f0-5b6e-4f7a-8a9b-1e2d3c4b5a69'', title = ''Budget plan'',
       messages = [], createdAt = 1700000002000, updatedAt = 1700000007000, isPinned = Some False \<rparr>"

definition session_d :: ChatSession where
  "session_d = \<lparr> session_id = ''4fzyo82mvyr'', title = ''Hello'',
       messages = [], createdAt = 1700000003000, updatedAt = 1700000008000, isPinned = None \<rparr>"

text \<open>Two sessions with a history, and a state whose current session is the first.\<close>

definition msg_hi :: ChatMessage where
  "msg_hi = \<lparr> msg_id = ''5e1f0a9b-1c2d-4e3f-8a4b-5c6d7e8f9a01'', role = USER, msg_text = ''Hi'',
       imageUrl = None, msg_type = TEXT, timestamp = 1700000004000,
       isGenerating = None, originalPrompt = None \<rparr>"

definition msg_hello :: ChatMessage where
  "msg_hello = \<lparr> msg_id = ''5e1f0a9b-1c2d-4e3f-8a4b-5c6d7e8f9a02'', role = MODEL,
       msg_text = ''Hello!'', imageUrl = None, msg_type = TEXT, timestamp = 1700000004900,
       isGenerating = None, originalPrompt = None \<rparr>"

definition msg_budget :: ChatMessage where
  "msg_budget = \<lparr> msg_id = ''5e1f0a9b-1c2d-4e3f-8a4b-5c6d7e8f9a03'', role = USER,
       msg_text = ''Plan my budget'', imageUrl = None, msg_type = TEXT,
       timestamp = 1700000006900, isGenerating = None, originalPrompt = None \<rparr>"

definition session_e :: ChatSession where
  "session_e = \<lparr> session_id = ''e7a1c0de-1111-4222-8333-444455556666'', title = ''Hi'',
       messages = [msg_hi, msg_hello], createdAt = 1700000003500, updatedAt = 1700000004950,
       isPinned = None \<rparr>"

definition session_f :: ChatSession where
  "session_f = \<lparr> session_id = ''f00dbabe-7777-4888-9999-aaaabbbbcccc'', title = ''Plan my budget'',
       messages = [msg_budget], createdAt = 1700000006000, updatedAt = 1700000006950,
       isPinned = Some True \<rparr>"

definition st_chat :: app_state where
  "st_chat = \<lparr> sessions = [session_e, session_f],
       currentSessionId = Some ''e7a1c0de-1111-4222-8333-444455556666'',
       input = ''Namaste'', selectedImage = None, isTyping = False, showImageGenGuide = False,
       isSidebarOpen = False, isLoggedIn = True, showLoginModal = False \<rparr>"

definition st_empty :: app_state where
  "st_empty = \<lparr> sessions = [], currentSessionId = None,
       input = [], selectedImage = None, isTyping = False, showImageGenGuide = False,
       isSidebarOpen = False, isLoggedIn = True, showLoginModal = False \<rparr>"

definition st_two :: app_state where
  "st_two = \<lparr> sessions = [session_a, session_b],
       currentSessionId = Some ''3b241101-e2bb-4255-8caf-4136c566a962'',
       input = [], selectedImage = None, isTyping = False, showImageGenGuide = False,
       isSidebarOpen = True, isLoggedIn = True, showLoginModal = False \<rparr>"

definition env_of :: "string \<Rightarrow> GoogleGenAI \<Rightarrow> env" where
  "env_of uuid g =
     \<lparr> rand_session = \<lparr> randomUUID = Some uuid, mathRandom36 = ''0.4fzyo82mvyr'' \<rparr>,
       rand_user = \<lparr> randomUUID = Some ''0a1b2c3d-0000-4000-8000-000000000001'',
                     mathRandom36 = ''0.8k2j1x9qz'' \<rparr>,
       rand_reply = \<lparr> randomUUID = Some ''0a1b2c3d-0000-4000-8000-000000000002'',
                      mathRandom36 = ''0.b71c0aa3f'' \<rparr>,
       now_created = 1700000010000, now_updated = 1700000010000,
       now_user = 1700000010001, now_user_touch = 1700000010002,
       now_reply = 1700000012000, now_reply_touch = 1700000012001,
       innerWidth = 1280, ai = g \<rparr>"

section \<open>Predicates of the properties\<close>

text \<open>
  A session after an operation continues a session before it: the same identifier and
  creation time, and the earlier messages as a prefix of the later ones.
\<close>

definition grows :: "ChatSession \<Rightarrow> ChatSession \<Rightarrow> bool" where
  "grows s s' = (session_id s' = session_id s \<and> createdAt s' = createdAt s \<and>
                 prefix (messages s) (messages s'))"

text \<open>
  What an operation may do to the collection. Either it keeps every session, each one
  continued at its place, and puts additional sessions with no message in front of
  them; or it adds nothing, drops some sessions whole and continues the others, in
  their order. In both cases each session after the operation that is not an additional
  one continues its own session before it, so a session whose messages were erased or
  changed does not pass.
\<close>

definition appends_only :: "ChatSession list \<Rightarrow> ChatSession list \<Rightarrow> bool" where
  "appends_only before after =
     ((\<exists>fresh rest.
         after = fresh @ rest \<and>
         list_all (\<lambda>s. messages s = []) fresh \<and>
         list_all2 grows before rest) \<or>
      (\<exists>kept. subseq kept before \<and> list_all2 grows kept after))"

text \<open>The order of the sidebar's comparator: \<open>a\<close> may stand before \<open>b\<close>.\<close>

definition before_eq :: "ChatSession \<Rightarrow> ChatSession \<Rightarrow> bool" where
  "before_eq a b = (compareSessions a b \<le> 0)"

section \<open>Properties\<close>

subsection \<open>String search\<close>

lemma startsWith_prefix: "startsWith s p \<longleftrightarrow> prefix p s"
  unfolding startsWith_def by (metis append_eq_conv_conj prefix_def)

lemma includes_str_sublist: "includes_str s p \<longleftrightarrow> sublist p s"
  by (induction s) (auto simp: startsWith_prefix sublist_Cons_right)

text \<open>
  Claim C5. The heuristic accepts ``draw a cat'' and ``generate image of a sunset'' and
  rejects ``hello there''; for every text it holds exactly when the lower-cased text
  starts with ``generate image'', ``create image'', ``draw'' or ``imagine'', or contains
  ``make an image of''.
\<close>

theorem isImageGenerationRequest_rule:
  "isImageGenerationRequest ''draw a cat'' \<and>
   isImageGenerationRequest ''generate image of a sunset'' \<and>
   \<not> isImageGenerationRequest ''hello there'' \<and>
   (isImageGenerationRequest txt \<longleftrightarrow>
      prefix ''generate image'' (toLowerCase txt) \<or>
      prefix ''create image'' (toLowerCase txt) \<or>
      prefix ''draw'' (toLowerCase txt) \<or>
      prefix ''imagine'' (toLowerCase txt) \<or>
      sublist ''make an image of'' (toLowerCase txt))"
proof -
  have a: "isImageGenerationRequest ''draw a cat''" by code_simp
  have b: "isImageGenerationRequest ''generate image of a sunset''" by code_simp
  have c: "\<not> isImageGenerationRequest ''hello there''" by code_simp
  have d: "isImageGenerationRequest txt \<longleftrightarrow>
      prefix ''generate image'' (toLowerCase txt) \<or>
      prefix ''create image'' (toLowerCase txt) \<or>
      prefix ''draw'' (toLowerCase txt) \<or>
      prefix ''imagine'' (toLowerCase txt) \<or>
      sublist ''make an image of'' (toLowerCase txt)"
    by (simp only: isImageGenerationRequest_def Let_def startsWith_prefix includes_str_sublist)
  from a b c d show ?thesis by blast
qed

subsection \<open>Image generation\<close>

text \<open>
  Claim C6, as the code has it. When the remote call resolves and the first generated
  entry carries an image with bytes, the operation returns the JPEG data URI of those
  bytes; when the remote call resolves with no generated entry (the list absent or
  empty), the operation returns null; when the remote call fails, the operation throws
  the same error to its caller. Nothing is said here of a first entry without an image
  or without bytes.
\<close>

theorem generateImageWithGemini_outcomes:
  "(generateImages g prompt = Inr (Some (Some (Some bytes) # rest)) \<longrightarrow>
     generateImageWithGemini g prompt = Inr (Some (''data:image/jpeg;base64,'' @ bytes))) \<and>
   (generateImages g prompt = Inr (Some []) \<or> generateImages g prompt = Inr None \<longrightarrow>
     generateImageWithGemini g prompt = Inr None) \<and>
   (generateImages g prompt = Inl err \<longrightarrow> generateImageWithGemini g prompt = Inl err)"
  by (auto simp: generateImageWithGemini_def)

theorem generateImageWithGemini_outcomes_witness:
  "generateImages ai_ok ''draw a cat'' = Inr (Some [Some (Some ''QUJD'')]) \<and>
   generateImageWithGemini ai_ok ''draw a cat'' = Inr (Some ''data:image/jpeg;base64,QUJD'') \<and>
   generateImages ai_down ''draw a cat'' = Inl (ApiError ''quota exceeded'') \<and>
   generateImageWithGemini ai_down ''draw a cat'' = Inl (ApiError ''quota exceeded'')"
  using generateImageWithGemini_outcomes
          [of ai_ok "''draw a cat''" "''QUJD''" "[]" "ApiError ''quota exceeded''"]
        generateImageWithGemini_outcomes
          [of ai_down "''draw a cat''" "''QUJD''" "[]" "ApiError ''quota exceeded''"]
  by (simp add: ai_ok_def ai_down_def)

text \<open>
  Against claim C6 as stated, at three services. When the service rejects the call, the
  operation does not return null, it throws the error to its caller. When the call
  resolves with two entries of which only the second has an image, the operation
  returns neither a data URI nor null, it throws a TypeError. When the first entry has
  an image without bytes and the second one with bytes, the result carries the word
  undefined in place of image data. So only the first entry counts, and it has to carry
  the bytes.
\<close>

theorem generateImageWithGemini_rethrows:
  "generateImageWithGemini ai_down ''draw a cat'' = Inl (ApiError ''quota exceeded'') \<and>
   generateImageWithGemini ai_first_filtered ''draw a cat'' = Inl TypeError \<and>
   generateImageWithGemini ai_first_no_bytes ''draw a cat''
     = Inr (Some ''data:image/jpeg;base64,undefined'')"
  by (simp add: generateImageWithGemini_def ai_down_def ai_first_filtered_def
        ai_first_no_bytes_def)

subsection \<open>Session store\<close>

text \<open>
  Claim C3. Deleting by an identifier keeps exactly the sessions with another
  identifier, in their order, so no session with that identifier remains; the current
  pointer becomes null when it was that identifier and is unchanged otherwise.
\<close>

theorem handleDeleteSession_removes:
  "sessions (handleDeleteSession i st) = filter (\<lambda>s. session_id s \<noteq> i) (sessions st) \<and>
   i \<notin> session_id ` set (sessions (handleDeleteSession i st)) \<and>
   (currentSessionId st = Some i \<longrightarrow> currentSessionId (handleDeleteSession i st) = None) \<and>
   (currentSessionId st \<noteq> Some i \<longrightarrow>
      currentSessionId (handleDeleteSession i st) = currentSessionId st)"
  by (auto simp: handleDeleteSession_def Let_def)

theorem handleDeleteSession_removes_witness:
  "currentSessionId st_two = Some ''3b241101-e2bb-4255-8caf-4136c566a962'' \<and>
   sessions (handleDeleteSession ''3b241101-e2bb-4255-8caf-4136c566a962'' st_two) = [session_b] \<and>
   currentSessionId (handleDeleteSession ''3b241101-e2bb-4255-8caf-4136c566a962'' st_two) = None \<and>
   currentSessionId st_two \<noteq> Some ''9f0c2d4e-77aa-4c1b-9b1e-0d5c8a6f2e11'' \<and>
   sessions (handleDeleteSession ''9f0c2d4e-77aa-4c1b-9b1e-0d5c8a6f2e11'' st_two) = [session_a] \<and>
   currentSessionId (handleDeleteSession ''9f0c2d4e-77aa-4c1b-9b1e-0d5c8a6f2e11'' st_two)
     = Some ''3b241101-e2bb-4255-8caf-4136c566a962''"
  using handleDeleteSession_removes [of "''3b241101-e2bb-4255-8caf-4136c566a962''" st_two]
        handleDeleteSession_removes [of "''9f0c2d4e-77aa-4c1b-9b1e-0d5c8a6f2e11''" st_two]
  by (simp add: st_two_def session_a_def session_b_def)

text \<open>
  Claim C10. The pin operation leaves every session with another identifier as it was,
  leaves the identifier, title, messages and both timestamps of the targeted session
  as they were, and touches no other part of the state; with no session of that
  identifier the state is unchanged.
\<close>

theorem handlePinSession_frame: "list_all2
     (\<lambda>s s'. (session_id s \<noteq> i \<longrightarrow> s' = s) \<and>
             session_id s' = session_id s \<and> title s' = title s \<and>
             messages s' = messages s \<and> createdAt s' = createdAt s \<and>
             updatedAt s' = updatedAt s)
     (sessions st) (sessions (handlePinSession i st)) \<and>
   (handlePinSession i st)\<lparr> sessions := sessions st \<rparr> = st \<and>
   (i \<notin> session_id ` set (sessions st) \<longrightarrow> handlePinSession i st = st)"
proof (intro conjI impI)
  show "list_all2
     (\<lambda>s s'. (session_id s \<noteq> i \<longrightarrow> s' = s) \<and>
             session_id s' = session_id s \<and> title s' = title s \<and>
             messages s' = messages s \<and> createdAt s' = createdAt s \<and>
             updatedAt s' = updatedAt s)
     (sessions st) (sessions (handlePinSession i st))"
    by (simp add: handlePinSession_def list_all2_map2 list_all2_same)
  show "(handlePinSession i st)\<lparr> sessions := sessions st \<rparr> = st"
    by (simp add: handlePinSession_def)
  assume "i \<notin> session_id ` set (sessions st)"
  then have "map (\<lambda>s. if session_id s = i
                    then s\<lparr> isPinned := Some (\<not> truthy_flag (isPinned s)) \<rparr> else s)
            (sessions st) = sessions st"
    by (intro map_idI) auto
  then show "handlePinSession i st = st"
    by (simp add: handlePinSession_def)
qed

theorem handlePinSession_frame_witness:
  "sessions (handlePinSession ''3b241101-e2bb-4255-8caf-4136c566a962'' st_two)
     = [session_a\<lparr> isPinned := Some True \<rparr>, session_b] \<and>
   ''4fzyo82mvyr'' \<notin> session_id ` set (sessions st_two) \<and>
   handlePinSession ''4fzyo82mvyr'' st_two = st_two"
proof -
  have fresh: "''4fzyo82mvyr'' \<notin> session_id ` set (sessions st_two)"
    by (simp add: st_two_def session_a_def session_b_def)
  have same: "handlePinSession ''4fzyo82mvyr'' st_two = st_two"
    using handlePinSession_frame [of "''4fzyo82mvyr''" st_two] fresh by blast
  have pinned: "sessions (handlePinSession ''3b241101-e2bb-4255-8caf-4136c566a962'' st_two)
     = [session_a\<lparr> isPinned := Some True \<rparr>, session_b]"
    by (simp add: handlePinSession_def st_two_def session_a_def session_b_def)
  from fresh same pinned show ?thesis by blast
qed

text \<open>
  Claim C8. After two pin operations on the same identifier every session is pinned
  exactly when it was pinned before, and nothing but the flag differs; a session with
  that identifier that was not pinned is pinned after the first call and has the flag
  false after the second.
\<close>

theorem handlePinSession_twice: "list_all2
     (\<lambda>s s'. truthy_flag (isPinned s') = truthy_flag (isPinned s) \<and>
             (session_id s = i \<and> \<not> truthy_flag (isPinned s) \<longrightarrow> isPinned s' = Some False) \<and>
             s'\<lparr> isPinned := isPinned s \<rparr> = s)
     (sessions st) (sessions (handlePinSession i (handlePinSession i st))) \<and>
   list_all2
     (\<lambda>s s'. session_id s = i \<longrightarrow> truthy_flag (isPinned s') = (\<not> truthy_flag (isPinned s)))
     (sessions st) (sessions (handlePinSession i st))"
  by (simp add: handlePinSession_def list_all2_map2 list_all2_same)

theorem handlePinSession_twice_witness:
  "sessions st_two = [session_a, session_b] \<and> \<not> truthy_flag (isPinned session_a) \<and>
   sessions (handlePinSession ''3b241101-e2bb-4255-8caf-4136c566a962'' st_two)
     = [session_a\<lparr> isPinned := Some True \<rparr>, session_b] \<and>
   sessions (handlePinSession ''3b241101-e2bb-4255-8caf-4136c566a962''
              (handlePinSession ''3b241101-e2bb-4255-8caf-4136c566a962'' st_two))
     = [session_a\<lparr> isPinned := Some False \<rparr>, session_b]"
  using handlePinSession_twice [of "''3b241101-e2bb-4255-8caf-4136c566a962''" st_two]
  by (simp add: handlePinSession_def st_two_def session_a_def session_b_def)

text \<open>
  Claim C4, as the code has it. New-chat creation puts a session with no messages at
  the head of the collection and makes it current; its identifier is the value drawn by
  \<^verbatim>\<open>generateId\<close>. It differs from every identifier in the collection whenever the drawn
  value is not among them, and then distinct identifiers stay distinct; the handler
  itself compares nothing.
\<close>

theorem handleNewChat_session:
  "sessions (handleNewChat e st) = newSessionTitled e ''New Conversation'' # sessions st \<and>
   messages (newSessionTitled e ''New Conversation'') = [] \<and>
   session_id (newSessionTitled e ''New Conversation'') = generateId (rand_session e) \<and>
   currentSessionId (handleNewChat e st) = Some (generateId (rand_session e)) \<and>
   (generateId (rand_session e) \<notin> session_id ` set (sessions st) \<longrightarrow>
      (\<forall>s \<in> set (sessions st). session_id (newSessionTitled e ''New Conversation'') \<noteq> session_id s)) \<and>
   (generateId (rand_session e) \<notin> session_id ` set (sessions st) \<and>
    distinct (map session_id (sessions st)) \<longrightarrow>
      distinct (map session_id (sessions (handleNewChat e st))))"
  by (auto simp: handleNewChat_def newSessionTitled_def Let_def)

theorem handleNewChat_session_witness:
  "generateId (rand_session (env_of ''7d9e1c52-3f4a-4b6c-9d8e-2a1b0c9d8e7f'' ai_ok))
     \<notin> session_id ` set (sessions st_two) \<and>
   distinct (map session_id (sessions st_two)) \<and>
   map session_id (sessions (handleNewChat (env_of ''7d9e1c52-3f4a-4b6c-9d8e-2a1b0c9d8e7f'' ai_ok) st_two))
     = [''7d9e1c52-3f4a-4b6c-9d8e-2a1b0c9d8e7f'', ''3b241101-e2bb-4255-8caf-4136c566a962'',
        ''9f0c2d4e-77aa-4c1b-9b1e-0d5c8a6f2e11''] \<and>
   distinct (map session_id (sessions (handleNewChat (env_of ''7d9e1c52-3f4a-4b6c-9d8e-2a1b0c9d8e7f'' ai_ok) st_two)))"
  using handleNewChat_session [of "env_of ''7d9e1c52-3f4a-4b6c-9d8e-2a1b0c9d8e7f'' ai_ok" st_two]
  by (simp add: env_of_def generateId_def st_two_def session_a_def session_b_def newSessionTitled_def)

text \<open>
  Against claim C4 as stated: when the draw repeats the identifier of a stored session,
  the new session carries that same identifier.
\<close>

theorem handleNewChat_id_collision:
  "session_id (hd (sessions (handleNewChat (env_of ''3b241101-e2bb-4255-8caf-4136c566a962'' ai_ok) st_two)))
     = session_id (hd (sessions st_two)) \<and>
   length (sessions (handleNewChat (env_of ''3b241101-e2bb-4255-8caf-4136c566a962'' ai_ok) st_two)) = 3"
  by (simp add: handleNewChat_def Let_def env_of_def generateId_def st_two_def session_a_def
        session_b_def newSessionTitled_def)

subsection \<open>Send flow\<close>

text \<open>
  Without a current session the handler only creates a session and returns, whatever
  the text and the selected image are.
\<close>

lemma handleSend_without_session:
  assumes "\<not> truthy_str (currentSessionId st)"
  shows "handleSend e ov m st =
     st\<lparr> sessions := newSessionTitled e (or_str (take 30 (textToSend ov st)) ''New Chat'')
                        # sessions st,
         currentSessionId := Some (generateId (rand_session e)) \<rparr>"
  using assms by (simp add: handleSend_def Let_def newSessionTitled_def)

text \<open>
  Claim C1, evaluated on the code. With no current session, the handler called with the
  text of the welcome screen's chat button creates one session titled by that text and
  returns: the session has no message, the typing flag is untouched and the gateway is
  not called.
\<close>

theorem handleSend_no_session_returns_early:
  "handleSend (env_of ''7d9e1c52-3f4a-4b6c-9d8e-2a1b0c9d8e7f'' ai_ok) (Some ''Hello! Let's chat.'') False st_empty
     = st_empty\<lparr> sessions :=
          [\<lparr> session_id = ''7d9e1c52-3f4a-4b6c-9d8e-2a1b0c9d8e7f'', title = ''Hello! Let's chat.'',
              messages = [], createdAt = 1700000010000, updatedAt = 1700000010000,
              isPinned = None \<rparr>],
        currentSessionId := Some ''7d9e1c52-3f4a-4b6c-9d8e-2a1b0c9d8e7f'' \<rparr>"
  by (simp add: handleSend_def textToSend_def Let_def st_empty_def env_of_def generateId_def
        newSessionTitled_def or_str_def)

lemma tryBlock_throws_iff:
  "tryBlock e txt m um tgt ss = Inl err \<longleftrightarrow>
     (m \<or> isImageGenerationRequest txt) \<and> generateImageWithGemini (ai e) txt = Inl err"
  by (auto simp: tryBlock_def Let_def split: sum.splits)

text \<open>The sessions after the body of the send handler, when a session is current.\<close>

lemma sendBody_sessions:
  assumes "truthy_str (currentSessionId st)"
  shows "sessions (sendBody e txt m st) =
     map (\<lambda>s. if Some (session_id s) = currentSessionId st
               then s\<lparr> title := (if messages s = [] then or_str (take 30 txt) ''Image Analysis''
                                 else title s),
                       messages := messages s @
                         [userMsg e txt st,
                          (case tryBlock e txt m (userMsg e txt st) (currentSessionId st) (sessions st) of
                             Inr botMsg \<Rightarrow> botMsg | Inl err \<Rightarrow> errorMsg e)],
                       updatedAt :=
                         (case tryBlock e txt m (userMsg e txt st) (currentSessionId st) (sessions st) of
                             Inr botMsg \<Rightarrow> now_reply_touch e | Inl err \<Rightarrow> now_user_touch e) \<rparr>
               else s)
       (sessions st)"
  using assms by (simp add: sendBody_def Let_def comp_def split: sum.splits)

lemma sendBody_isTyping: "isTyping (sendBody e txt m st) = False"
  by (simp add: sendBody_def Let_def)

lemma handleSend_sendBody:
  assumes "truthy_str (currentSessionId st)"
    and "trim (textToSend ov st) \<noteq> [] \<or> truthy_str (selectedImage st)"
  shows "handleSend e ov m st = sendBody e (textToSend ov st) m st"
  using assms by (auto simp: handleSend_def Let_def)

text \<open>
  Claim C2. In a send that passes the guard (a current session, and a text that is not
  blank or a selected image) the typing flag is false at the end, whatever the gateway
  did. When the gateway call throws, every session with the target identifier gains
  the user's message followed by the one error message, of role model and with the
  fixed text, so exactly one model message more; every other session is unchanged.
\<close>

theorem handleSend_throw:
  assumes "truthy_str (currentSessionId st)"
    and "trim (textToSend ov st) \<noteq> [] \<or> truthy_str (selectedImage st)"
  shows "isTyping (handleSend e ov m st) = False \<and>
    (tryBlock e (textToSend ov st) m (userMsg e (textToSend ov st) st) (currentSessionId st) (sessions st) = Inl err
     \<longrightarrow> list_all2
           (\<lambda>s s'. if Some (session_id s) = currentSessionId st
                    then messages s' = messages s @ [userMsg e (textToSend ov st) st, errorMsg e] \<and>
                         length (filter (\<lambda>x. role x = MODEL) (messages s'))
                           = Suc (length (filter (\<lambda>x. role x = MODEL) (messages s)))
                    else s' = s)
           (sessions st) (sessions (handleSend e ov m st)) \<and>
         role (userMsg e (textToSend ov st) st) = USER \<and>
         role (errorMsg e) = MODEL \<and> msg_text (errorMsg e) = neuralLinkDisrupted)"
proof -
  have eq: "handleSend e ov m st = sendBody e (textToSend ov st) m st"
    using assms by (rule handleSend_sendBody)
  have typing: "isTyping (handleSend e ov m st) = False"
    by (simp add: eq sendBody_isTyping)
  have roles: "role (userMsg e (textToSend ov st) st) = USER" "role (errorMsg e) = MODEL"
      "msg_text (errorMsg e) = neuralLinkDisrupted"
    by (simp_all add: userMsg_def errorMsg_def)
  have thrown: "list_all2
           (\<lambda>s s'. if Some (session_id s) = currentSessionId st
                    then messages s' = messages s @ [userMsg e (textToSend ov st) st, errorMsg e] \<and>
                         length (filter (\<lambda>x. role x = MODEL) (messages s'))
                           = Suc (length (filter (\<lambda>x. role x = MODEL) (messages s)))
                    else s' = s)
           (sessions st) (sessions (handleSend e ov m st))"
    if "tryBlock e (textToSend ov st) m (userMsg e (textToSend ov st) st) (currentSessionId st) (sessions st) = Inl err"
    using that roles
    by (simp add: eq sendBody_sessions [OF assms(1)] list_all2_map2 list_all2_same)
  from typing roles thrown show ?thesis by blast
qed

theorem handleSend_throw_witness:
  "truthy_str (currentSessionId st_two) \<and>
   trim (textToSend (Some ''draw a cat'') st_two) \<noteq> [] \<and>
   tryBlock (env_of ''7d9e1c52-3f4a-4b6c-9d8e-2a1b0c9d8e7f'' ai_down) ''draw a cat'' False
     (userMsg (env_of ''7d9e1c52-3f4a-4b6c-9d8e-2a1b0c9d8e7f'' ai_down) ''draw a cat'' st_two)
     (currentSessionId st_two) (sessions st_two) = Inl (ApiError ''quota exceeded'') \<and>
   isTyping (handleSend (env_of ''7d9e1c52-3f4a-4b6c-9d8e-2a1b0c9d8e7f'' ai_down) (Some ''draw a cat'') False st_two) = False \<and>
   map (map role \<circ> messages)
     (sessions (handleSend (env_of ''7d9e1c52-3f4a-4b6c-9d8e-2a1b0c9d8e7f'' ai_down) (Some ''draw a cat'') False st_two))
     = [[USER, MODEL], []] \<and>
   map (map msg_text \<circ> messages)
     (sessions (handleSend (env_of ''7d9e1c52-3f4a-4b6c-9d8e-2a1b0c9d8e7f'' ai_down) (Some ''draw a cat'') False st_two))
     = [[''draw a cat'', neuralLinkDisrupted], []]"
proof -
  let ?e = "env_of ''7d9e1c52-3f4a-4b6c-9d8e-2a1b0c9d8e7f'' ai_down"
  have tts: "textToSend (Some ''draw a cat'') st_two = ''draw a cat''"
    by (simp add: textToSend_def)
  have h1: "truthy_str (currentSessionId st_two)"
    by (simp add: st_two_def)
  have h2: "trim (textToSend (Some ''draw a cat'') st_two) \<noteq> []"
    unfolding tts by code_simp
  have req: "isImageGenerationRequest ''draw a cat''" by code_simp
  have h3: "tryBlock ?e ''draw a cat'' False (userMsg ?e ''draw a cat'' st_two)
     (currentSessionId st_two) (sessions st_two) = Inl (ApiError ''quota exceeded'')"
    by (simp add: tryBlock_def req generateImageWithGemini_def env_of_def ai_down_def)
  note t = handleSend_throw [OF h1 disjI1 [OF h2], of ?e False "ApiError ''quota exceeded''"]
  have typing: "isTyping (handleSend ?e (Some ''draw a cat'') False st_two) = False"
    using t by blast
  have rel: "list_all2
           (\<lambda>s s'. if Some (session_id s) = currentSessionId st_two
                    then messages s' = messages s @ [userMsg ?e ''draw a cat'' st_two, errorMsg ?e] \<and>
                         length (filter (\<lambda>x. role x = MODEL) (messages s'))
                           = Suc (length (filter (\<lambda>x. role x = MODEL) (messages s)))
                    else s' = s)
           (sessions st_two) (sessions (handleSend ?e (Some ''draw a cat'') False st_two))"
    using t h3 unfolding tts by blast
  obtain x y where xy: "sessions (handleSend ?e (Some ''draw a cat'') False st_two) = [x, y]"
     and x: "messages x = [userMsg ?e ''draw a cat'' st_two, errorMsg ?e]" and y: "y = session_b"
    using rel by (auto simp: st_two_def session_a_def session_b_def list_all2_Cons1)
  have roles: "map (map role \<circ> messages)
     (sessions (handleSend ?e (Some ''draw a cat'') False st_two)) = [[USER, MODEL], []]"
    by (simp add: xy x y userMsg_def errorMsg_def session_b_def)
  have texts: "map (map msg_text \<circ> messages)
     (sessions (handleSend ?e (Some ''draw a cat'') False st_two)) = [[''draw a cat'', neuralLinkDisrupted], []]"
    by (simp add: xy x y userMsg_def errorMsg_def session_b_def)
  from h1 h2 h3 typing roles texts show ?thesis by blast
qed

lemma grows_refl: "list_all2 grows ss ss"
  by (simp add: list_all2_same grows_def)

lemma handleSend_cases:
  "sessions (handleSend e ov m st) = sessions st \<or>
   (\<exists>ttl. sessions (handleSend e ov m st) = newSessionTitled e ttl # sessions st) \<or>
   (truthy_str (currentSessionId st) \<and>
    sessions (handleSend e ov m st) = sessions (sendBody e (textToSend ov st) m st))"
  by (auto simp: handleSend_def Let_def)

lemma sendBody_grows:
  assumes "truthy_str (currentSessionId st)"
  shows "list_all2 grows (sessions st) (sessions (sendBody e txt m st))"
  by (simp add: sendBody_sessions [OF assms] list_all2_map2 list_all2_same grows_def)

lemma appends_only_grows: "list_all2 grows before after \<Longrightarrow> appends_only before after"
  unfolding appends_only_def
  by (rule disjI2, rule exI [of _ before]) simp

lemma appends_only_subseq: "subseq after before \<Longrightarrow> appends_only before after"
  unfolding appends_only_def
  by (rule disjI2, rule exI [of _ after]) (simp add: grows_refl)

lemma appends_only_new: "messages n = [] \<Longrightarrow> appends_only before (n # before)"
  unfolding appends_only_def
  by (rule disjI1, rule exI [of _ "[n]"], rule exI [of _ before]) (simp add: grows_refl)

text \<open>
  When the number of sessions stays the same, the predicate says that the session at
  each place continues the session that was at that place.
\<close>

lemma appends_only_same_length:
  assumes "appends_only before after" and "length after = length before"
  shows "list_all2 grows before after"
  using assms(1) unfolding appends_only_def
proof (elim disjE exE conjE)
  fix fresh rest
  assume after: "after = fresh @ rest" and rest: "list_all2 grows before rest"
  from rest have "length rest = length before"
    by (simp add: list_all2_lengthD)
  with after assms(2) have "fresh = []" by simp
  with after rest show ?thesis by simp
next
  fix kept
  assume kept: "subseq kept before" and rel: "list_all2 grows kept after"
  from rel have "length kept = length after"
    by (rule list_all2_lengthD)
  with assms(2) kept have "kept = before"
    by (simp add: subseq_same_length)
  with rel show ?thesis by simp
qed

text \<open>Erasing the messages of the sessions passes only where there was none to erase.\<close>

lemma appends_only_erased:
  assumes "appends_only ss (map (\<lambda>s. s\<lparr> messages := [] \<rparr>) ss)"
  shows "list_all (\<lambda>s. messages s = []) ss"
proof -
  have "list_all2 grows ss (map (\<lambda>s. s\<lparr> messages := [] \<rparr>) ss)"
    using assms by (rule appends_only_same_length) simp
  then show ?thesis
    by (simp add: list_all2_map2 list_all2_same grows_def list_all_iff)
qed

text \<open>
  Claim C7. Every operation of the session store and of the send flow leaves, for each
  session it keeps, the earlier messages as a prefix of the later ones: an operation
  that adds sessions keeps all the others, each at its place, and the added ones have
  no message; an operation that drops sessions drops them whole and adds none.
\<close>

theorem step_appends_only: "appends_only (sessions st) (sessions (step opn st))"
proof (cases opn)
  case (NewChat e)
  have "sessions (step opn st) = newSessionTitled e ''New Conversation'' # sessions st"
    by (simp add: NewChat handleNewChat_def Let_def)
  then show ?thesis
    by (simp add: appends_only_new newSessionTitled_def)
next
  case (DeleteSession i)
  have "sessions (step opn st) = filter (\<lambda>s. session_id s \<noteq> i) (sessions st)"
    by (simp add: DeleteSession handleDeleteSession_def Let_def)
  then show ?thesis
    by (simp add: appends_only_subseq)
next
  case (PinSession i)
  have "list_all2 grows (sessions st) (sessions (step opn st))"
    by (simp add: PinSession handlePinSession_def list_all2_map2 list_all2_same grows_def)
  then show ?thesis by (rule appends_only_grows)
next
  case (SessionSelect i)
  have "sessions (step opn st) = sessions st"
    by (simp add: SessionSelect handleSessionSelect_def)
  then show ?thesis
    by (simp add: appends_only_subseq)
next
  case ClearAll
  have "sessions (step opn st) = []"
    by (simp add: ClearAll onClearAll_def)
  then show ?thesis
    by (simp add: appends_only_subseq)
next
  case (Send e ov m)
  from handleSend_cases [of e ov m st]
  consider (same) "sessions (step opn st) = sessions st"
    | (created) ttl where "sessions (step opn st) = newSessionTitled e ttl # sessions st"
    | (sent) "truthy_str (currentSessionId st)"
        "sessions (step opn st) = sessions (sendBody e (textToSend ov st) m st)"
    unfolding Send step.simps by blast
  then show ?thesis
  proof cases
    case same
    then show ?thesis by (simp add: appends_only_subseq)
  next
    case created
    then show ?thesis by (simp add: appends_only_new newSessionTitled_def)
  next
    case sent
    have "list_all2 grows (sessions st) (sessions (step opn st))"
      unfolding sent(2) using sent(1) by (rule sendBody_grows)
    then show ?thesis by (rule appends_only_grows)
  qed
qed

theorem step_appends_only_witness:
  "map (map msg_text \<circ> messages) (sessions st_chat)
     = [[''Hi'', ''Hello!''], [''Plan my budget'']] \<and>
   appends_only (sessions st_chat)
     (sessions (step (Send (env_of ''7d9e1c52-3f4a-4b6c-9d8e-2a1b0c9d8e7f'' ai_ok) None False) st_chat)) \<and>
   map (map msg_text \<circ> messages)
     (sessions (step (Send (env_of ''7d9e1c52-3f4a-4b6c-9d8e-2a1b0c9d8e7f'' ai_ok) None False) st_chat))
     = [[''Hi'', ''Hello!'', ''Namaste'', ''Namaste!''], [''Plan my budget'']] \<and>
   appends_only (sessions st_chat)
     (sessions (step (DeleteSession ''e7a1c0de-1111-4222-8333-444455556666'') st_chat)) \<and>
   sessions (step (DeleteSession ''e7a1c0de-1111-4222-8333-444455556666'') st_chat) = [session_f] \<and>
   \<not> appends_only (sessions st_chat) (map (\<lambda>s. s\<lparr> messages := [] \<rparr>) (sessions st_chat)) \<and>
   \<not> appends_only (sessions st_chat) [session_e\<lparr> messages := [msg_hello, msg_hi] \<rparr>, session_f]"
proof -
  let ?e = "env_of ''7d9e1c52-3f4a-4b6c-9d8e-2a1b0c9d8e7f'' ai_ok"
  have a: "appends_only (sessions st_chat) (sessions (step (Send ?e None False) st_chat))"
    by (rule step_appends_only)
  have b: "appends_only (sessions st_chat)
     (sessions (step (DeleteSession ''e7a1c0de-1111-4222-8333-444455556666'') st_chat))"
    by (rule step_appends_only)
  have c: "map (map msg_text \<circ> messages) (sessions (step (Send ?e None False) st_chat))
     = [[''Hi'', ''Hello!'', ''Namaste'', ''Namaste!''], [''Plan my budget'']]"
    by code_simp
  have d: "sessions (step (DeleteSession ''e7a1c0de-1111-4222-8333-444455556666'') st_chat) = [session_f]"
    by (simp add: handleDeleteSession_def st_chat_def session_e_def session_f_def)
  have e: "map (map msg_text \<circ> messages) (sessions st_chat)
     = [[''Hi'', ''Hello!''], [''Plan my budget'']]"
    by (simp add: st_chat_def session_e_def session_f_def msg_hi_def msg_hello_def msg_budget_def)
  have f: "\<not> appends_only (sessions st_chat) (map (\<lambda>s. s\<lparr> messages := [] \<rparr>) (sessions st_chat))"
  proof
    assume "appends_only (sessions st_chat) (map (\<lambda>s. s\<lparr> messages := [] \<rparr>) (sessions st_chat))"
    then have "list_all2 grows (sessions st_chat) (map (\<lambda>s. s\<lparr> messages := [] \<rparr>) (sessions st_chat))"
      by (rule appends_only_same_length) simp
    then show False
      by (simp add: st_chat_def session_e_def grows_def)
  qed
  have g: "\<not> appends_only (sessions st_chat) [session_e\<lparr> messages := [msg_hello, msg_hi] \<rparr>, session_f]"
  proof
    assume "appends_only (sessions st_chat) [session_e\<lparr> messages := [msg_hello, msg_hi] \<rparr>, session_f]"
    then have "list_all2 grows (sessions st_chat) [session_e\<lparr> messages := [msg_hello, msg_hi] \<rparr>, session_f]"
      by (rule appends_only_same_length) (simp add: st_chat_def)
    then show False
      by (simp add: st_chat_def session_e_def grows_def msg_hi_def msg_hello_def)
  qed
  from a b c d e f g show ?thesis by blast
qed

subsection \<open>Sidebar\<close>

lemma mset_insert_by: "mset (insert_by cmp x xs) = add_mset x (mset xs)"
  by (induction xs) simp_all

lemma mset_array_sort: "mset (array_sort cmp xs) = mset xs"
  by (induction xs) (simp_all add: array_sort_def mset_insert_by)

lemma set_insert_by: "set (insert_by cmp x xs) = insert x (set xs)"
  by (induction xs) auto

lemma before_eq_iff:
  "before_eq a b \<longleftrightarrow>
     (truthy_flag (isPinned a) \<and> \<not> truthy_flag (isPinned b)) \<or>
     (truthy_flag (isPinned a) = truthy_flag (isPinned b) \<and> updatedAt b \<le> updatedAt a)"
  by (auto simp: before_eq_def compareSessions_def)

lemma before_eq_total: "before_eq a b \<or> before_eq b a"
  unfolding before_eq_iff by auto

lemma before_eq_trans: "before_eq a b \<Longrightarrow> before_eq b c \<Longrightarrow> before_eq a c"
  unfolding before_eq_iff by auto

lemma sorted_insert_by:
  assumes "sorted_wrt before_eq xs"
  shows "sorted_wrt before_eq (insert_by compareSessions x xs)"
  using assms
proof (induction xs)
  case Nil
  then show ?case by simp
next
  case (Cons y ys)
  show ?case
  proof (cases "compareSessions x y \<le> 0")
    case True
    then have xy: "before_eq x y" by (simp add: before_eq_def)
    have "\<forall>z \<in> set ys. before_eq x z"
      using Cons.prems xy before_eq_trans by auto
    with True xy Cons.prems show ?thesis by simp
  next
    case False
    then have yx: "before_eq y x"
      using before_eq_total [of x y] by (simp add: before_eq_def)
    have "sorted_wrt before_eq (insert_by compareSessions x ys)"
      using Cons by simp
    moreover have "\<forall>z \<in> set (insert_by compareSessions x ys). before_eq y z"
      using Cons.prems yx by (simp add: set_insert_by)
    ultimately show ?thesis using False by simp
  qed
qed

lemma sorted_array_sort: "sorted_wrt before_eq (array_sort compareSessions xs)"
proof (induction xs)
  case Nil
  then show ?case by (simp add: array_sort_def)
next
  case (Cons x xs)
  then show ?case
    using sorted_insert_by [of "array_sort compareSessions xs" x]
    by (simp add: array_sort_def)
qed

text \<open>
  Claim C9. The displayed list holds exactly the sessions whose lower-cased title
  contains the lower-cased search term, each as often as in the array; no session that
  is not pinned stands before a pinned one; and of two sessions that are both pinned
  or both not, the earlier in the list has the later or equal update time.
\<close>

theorem filteredSessions_order:
  "mset (filteredSessions ss q)
     = mset (filter (\<lambda>s. sublist (toLowerCase q) (toLowerCase (title s))) ss) \<and>
   sorted_wrt
     (\<lambda>a b. (truthy_flag (isPinned b) \<longrightarrow> truthy_flag (isPinned a)) \<and>
             (truthy_flag (isPinned a) = truthy_flag (isPinned b) \<longrightarrow> updatedAt b \<le> updatedAt a))
     (filteredSessions ss q)"
proof
  have "matchesSearch q = (\<lambda>s. sublist (toLowerCase q) (toLowerCase (title s)))"
    by (rule ext) (simp add: matchesSearch_def includes_str_sublist)
  then show "mset (filteredSessions ss q)
     = mset (filter (\<lambda>s. sublist (toLowerCase q) (toLowerCase (title s))) ss)"
    by (simp add: filteredSessions_def mset_array_sort)
  have "sorted_wrt before_eq (filteredSessions ss q)"
    by (simp add: filteredSessions_def sorted_array_sort)
  then show "sorted_wrt
     (\<lambda>a b. (truthy_flag (isPinned b) \<longrightarrow> truthy_flag (isPinned a)) \<and>
             (truthy_flag (isPinned a) = truthy_flag (isPinned b) \<longrightarrow> updatedAt b \<le> updatedAt a))
     (filteredSessions ss q)"
    by (rule sorted_wrt_mono_rel [rotated]) (auto simp: before_eq_iff)
qed

theorem filteredSessions_order_witness:
  "filteredSessions [session_a, session_b, session_c, session_d] ''A''
     = [session_b, session_c, session_a] \<and>
   sorted_wrt
     (\<lambda>a b. (truthy_flag (isPinned b) \<longrightarrow> truthy_flag (isPinned a)) \<and>
             (truthy_flag (isPinned a) = truthy_flag (isPinned b) \<longrightarrow> updatedAt b \<le> updatedAt a))
     [session_b, session_c, session_a]"
proof -
  have v: "filteredSessions [session_a, session_b, session_c, session_d] ''A''
     = [session_b, session_c, session_a]"
    by code_simp
  show ?thesis
    using filteredSessions_order [of "[session_a, session_b, session_c, session_d]" "''A''"]
    unfolding v by (simp add: v)
qed

end
